theory Spec2Isabelle
  imports Main "HOL-Library.Sublist"
begin

section \<open>Python values and classes\<close>

text \<open>
  The argument specs of \<^verbatim>\<open>tagcon/args.py\<close> are Python 2 classes whose methods inspect
  dynamically typed values with \<^verbatim>\<open>isinstance\<close>, \<^verbatim>\<open>int\<close> and the \<^verbatim>\<open>%\<close> operator.
  The embedding therefore starts with the part of the Python object model these
  methods look at: classes with their bases, values with their class, the subclass
  test, integer conversion and the text of \<^verbatim>\<open>repr\<close>.

  Floating-point numbers are left out of the value universe. An object of a user
  class is described by what these operations find in it: its class, the text of
  its \<^verbatim>\<open>repr\<close>, and what \<^verbatim>\<open>int\<close> does with it.
\<close>

datatype pyclass =
  PyClass (cls_module: string) (cls_name: string) (cls_bases: "pyclass list")

text \<open>\<^verbatim>\<open>issubclass(c, d)\<close>: the class itself, or one reached through its bases.\<close>

fun issubclass :: "pyclass \<Rightarrow> pyclass \<Rightarrow> bool" where
  "issubclass (PyClass m n bs) d =
     (PyClass m n bs = d \<or> list_ex (\<lambda>b. issubclass b d) bs)"

definition object_class :: pyclass where
  "object_class = PyClass ''__builtin__'' ''object'' []"

definition NoneType_class :: pyclass where
  "NoneType_class = PyClass ''__builtin__'' ''NoneType'' [object_class]"

definition int_class :: pyclass where
  "int_class = PyClass ''__builtin__'' ''int'' [object_class]"

definition bool_class :: pyclass where
  "bool_class = PyClass ''__builtin__'' ''bool'' [int_class]"

definition basestring_class :: pyclass where
  "basestring_class = PyClass ''__builtin__'' ''basestring'' [object_class]"

definition str_class :: pyclass where
  "str_class = PyClass ''__builtin__'' ''str'' [basestring_class]"

definition unicode_class :: pyclass where
  "unicode_class = PyClass ''__builtin__'' ''unicode'' [basestring_class]"

definition list_class :: pyclass where
  "list_class = PyClass ''__builtin__'' ''list'' [object_class]"

definition tuple_class :: pyclass where
  "tuple_class = PyClass ''__builtin__'' ''tuple'' [object_class]"

definition dict_class :: pyclass where
  "dict_class = PyClass ''__builtin__'' ''dict'' [object_class]"

definition metatype_class :: pyclass where
  "metatype_class = PyClass ''__builtin__'' ''type'' [object_class]"

text \<open>In the \<^verbatim>\<open>datetime\<close> module, \<^verbatim>\<open>datetime\<close> is declared as a subclass of \<^verbatim>\<open>date\<close>.\<close>

definition date_class :: pyclass where
  "date_class = PyClass ''datetime'' ''date'' [object_class]"

definition datetime_class :: pyclass where
  "datetime_class = PyClass ''datetime'' ''datetime'' [date_class]"

definition time_class :: pyclass where
  "time_class = PyClass ''datetime'' ''time'' [object_class]"

definition long_class :: pyclass where
  "long_class = PyClass ''__builtin__'' ''long'' [object_class]"

text \<open>\<^verbatim>\<open>django.db.models.Model\<close>, the class every model derives from.\<close>

definition Model_class :: pyclass where
  "Model_class = PyClass ''django.db.models.base'' ''Model'' [object_class]"

text \<open>
  The classes written in C, whose \<^verbatim>\<open>repr\<close> reads \<^verbatim>\<open><type '...'>\<close>; a class
  defined in Python reads \<^verbatim>\<open><class '...'>\<close>.
\<close>

definition builtin_classes :: "pyclass list" where
  "builtin_classes =
     [object_class, NoneType_class, int_class, bool_class, long_class, basestring_class,
      str_class, unicode_class, list_class, tuple_class, dict_class, metatype_class,
      date_class, datetime_class, time_class]"

text \<open>
  What \<^verbatim>\<open>int\<close> finds in an object of a user class:
  \<^item> \<open>NoConv\<close>: no conversion method and no integer or text part;
  \<^item> \<open>ConvInt i\<close>: the integer \<open>i\<close>, for an instance of a subclass of \<^verbatim>\<open>int\<close> or
    \<^verbatim>\<open>long\<close> holding \<open>i\<close> and for an object whose \<^verbatim>\<open>__int__\<close> returns \<open>i\<close>;
  \<^item> \<open>ConvStr s\<close>, \<open>ConvUnicode s\<close>: the text of an instance of a subclass of
    \<^verbatim>\<open>str\<close> or \<^verbatim>\<open>unicode\<close> (the strings that Django marks as safe are such);
  \<^item> \<open>ConvTypeError m\<close>, \<open>ConvValueError m\<close>, \<open>ConvOther m\<close>: a conversion
    method that raises \<^verbatim>\<open>TypeError\<close>, \<^verbatim>\<open>ValueError\<close>, or an exception of another
    class that is not of this package.

  A conversion method of the class comes first, so the body of an instance of a
  subclass of \<^verbatim>\<open>int\<close>, \<^verbatim>\<open>long\<close>, \<^verbatim>\<open>str\<close> or \<^verbatim>\<open>unicode\<close> is never \<open>NoConv\<close>.
\<close>

datatype int_conv =
    NoConv
  | ConvInt int
  | ConvStr string
  | ConvUnicode string
  | ConvTypeError string
  | ConvValueError string
  | ConvOther string

datatype instance_body =
  Body (body_repr: string) (body_conv: int_conv)

text \<open>
  The values: \<^verbatim>\<open>None\<close>, booleans, plain and long integers, byte and unicode strings,
  lists, tuples, dictionaries (in iteration order), dates (year, month, day), times
  (hour, minute, second, microsecond), datetimes (the seven fields), classes, and
  instances of user classes, given by their class and their body.
\<close>

datatype pyval =
    PNone
  | PBool bool
  | PInt int
  | PLong int
  | PStr string
  | PUnicode string
  | PList "pyval list"
  | PTuple "pyval list"
  | PDict "(pyval \<times> pyval) list"
  | PDate nat nat nat
  | PTime nat nat nat nat
  | PDateTime nat nat nat nat nat nat nat
  | PClass pyclass
  | PInstance pyclass instance_body

fun type_of :: "pyval \<Rightarrow> pyclass" where
  "type_of PNone = NoneType_class"
| "type_of (PBool _) = bool_class"
| "type_of (PInt _) = int_class"
| "type_of (PLong _) = long_class"
| "type_of (PStr _) = str_class"
| "type_of (PUnicode _) = unicode_class"
| "type_of (PList _) = list_class"
| "type_of (PTuple _) = tuple_class"
| "type_of (PDict _) = dict_class"
| "type_of (PDate _ _ _) = date_class"
| "type_of (PTime _ _ _ _) = time_class"
| "type_of (PDateTime _ _ _ _ _ _ _) = datetime_class"
| "type_of (PClass _) = metatype_class"
| "type_of (PInstance c _) = c"

text \<open>\<^verbatim>\<open>isinstance(v, c)\<close>, and \<^verbatim>\<open>isinstance(v, (c1, ..., cn))\<close> with a tuple of classes.\<close>

definition isinstance :: "pyval \<Rightarrow> pyclass \<Rightarrow> bool" where
  "isinstance v c = issubclass (type_of v) c"

definition isinstance_any :: "pyval \<Rightarrow> pyclass list \<Rightarrow> bool" where
  "isinstance_any v cs = list_ex (isinstance v) cs"

subsection \<open>Text of values: \<^verbatim>\<open>str\<close> and \<^verbatim>\<open>repr\<close>\<close>

fun str_nat :: "nat \<Rightarrow> string" where
  "str_nat n =
     (if n < 10 then [''0123456789'' ! n]
      else str_nat (n div 10) @ [''0123456789'' ! (n mod 10)])"

definition str_int :: "int \<Rightarrow> string" where
  "str_int i = (if i < 0 then CHR ''-'' # str_nat (nat (- i)) else str_nat (nat i))"

definition hex2 :: "nat \<Rightarrow> string" where
  "hex2 n = [''0123456789abcdef'' ! (n div 16 mod 16), ''0123456789abcdef'' ! (n mod 16)]"

text \<open>
  The escapes of a string's \<^verbatim>\<open>repr\<close>: the quote in use and the backslash are
  escaped, tab, newline and carriage return get their letter, and every other
  character outside the printable ASCII range is written \<^verbatim>\<open>\xhh\<close>.
\<close>

definition repr_char :: "char \<Rightarrow> char \<Rightarrow> string" where
  "repr_char q c =
     (if c = q \<or> c = CHR 0x5C then [CHR 0x5C, c]
      else if c = CHR 0x09 then [CHR 0x5C, CHR ''t'']
      else if c = CHR 0x0A then [CHR 0x5C, CHR ''n'']
      else if c = CHR 0x0D then [CHR 0x5C, CHR ''r'']
      else if (of_char c :: nat) < 32 \<or> 127 \<le> (of_char c :: nat)
        then [CHR 0x5C, CHR ''x''] @ hex2 (of_char c)
      else [c])"

definition repr_text :: "string \<Rightarrow> string" where
  "repr_text s =
     (let q = (if CHR 0x27 \<in> set s \<and> CHR 0x22 \<notin> set s then CHR 0x22 else CHR 0x27)
      in q # concat (map (repr_char q) s) @ [q])"

text \<open>A text between single quotes, as the format strings of the source write it.\<close>

definition quoted :: "string \<Rightarrow> string" where
  "quoted s = CHR 0x27 # s @ [CHR 0x27]"

fun join :: "string \<Rightarrow> string list \<Rightarrow> string" where
  "join sep [] = []"
| "join sep [x] = x"
| "join sep (x # y # ys) = x @ sep @ join sep (y # ys)"

text \<open>The trailing fields of a time are printed only up to the last one that is not zero.\<close>

definition time_fields :: "nat \<Rightarrow> nat \<Rightarrow> nat \<Rightarrow> nat \<Rightarrow> string list" where
  "time_fields h mi s us =
     (if us \<noteq> 0 then map str_nat [h, mi, s, us]
      else if s \<noteq> 0 then map str_nat [h, mi, s]
      else map str_nat [h, mi])"

text \<open>The name a class is printed with: built-in classes go without their module.\<close>

definition tp_name :: "pyclass \<Rightarrow> string" where
  "tp_name c =
     (if cls_module c = ''__builtin__'' then cls_name c
      else cls_module c @ ''.'' @ cls_name c)"

fun py_repr :: "pyval \<Rightarrow> string" where
  "py_repr PNone = ''None''"
| "py_repr (PBool b) = (if b then ''True'' else ''False'')"
| "py_repr (PInt i) = str_int i"
| "py_repr (PLong i) = str_int i @ ''L''"
| "py_repr (PStr s) = repr_text s"
| "py_repr (PUnicode s) = CHR ''u'' # repr_text s"
| "py_repr (PList xs) = ''['' @ join '', '' (map py_repr xs) @ '']''"
| "py_repr (PTuple xs) =
     (case xs of
        [x] \<Rightarrow> ''('' @ py_repr x @ '',)''
      | _ \<Rightarrow> ''('' @ join '', '' (map py_repr xs) @ '')'')"
| "py_repr (PDict kvs) =
     ''{'' @ join '', '' (map (\<lambda>kv. py_repr (fst kv) @ '': '' @ py_repr (snd kv)) kvs) @ ''}''"
| "py_repr (PDate y m d) = ''datetime.date('' @ join '', '' (map str_nat [y, m, d]) @ '')''"
| "py_repr (PTime h mi s us) = ''datetime.time('' @ join '', '' (time_fields h mi s us) @ '')''"
| "py_repr (PDateTime y m d h mi s us) =
     ''datetime.datetime('' @ join '', '' (map str_nat [y, m, d] @ time_fields h mi s us) @ '')''"
| "py_repr (PClass c) =
     (if c \<in> set builtin_classes then ''<type '' else ''<class '')
     @ quoted (tp_name c) @ ''>''"
| "py_repr (PInstance c b) = body_repr b"

subsection \<open>Exceptions and integer conversion\<close>

text \<open>
  The exceptions that occur: the two built-in ones that \<^verbatim>\<open>int\<close> raises and
  \<^verbatim>\<open>IntegerArg.clean\<close> catches (\<^verbatim>\<open>TypeError\<close> is also what the constructor of
  \<^verbatim>\<open>ModelInstanceArg\<close> raises), the validation error of the package, and any
  exception of another class, which no \<^verbatim>\<open>except\<close> clause of the module catches.
  Each carries its message. A call that raises returns \<open>Inl\<close> of the exception.
\<close>

datatype pyexc =
    TypeError string
  | ValueError string
  | TemplateTagValidationError string
  | OtherException string

text \<open>
  \<^verbatim>\<open>int(s)\<close> on a text, base 10: white space around the literal is dropped, then an
  optional sign and at least one decimal digit must make up all of the rest.
  The white space of a byte string is that of the C locale; a unicode string also
  drops the separators \<^verbatim>\<open>\x1c\<close> to \<^verbatim>\<open>\x1f\<close>, \<^verbatim>\<open>\x85\<close> and \<^verbatim>\<open>\xa0\<close>.
\<close>

definition isspace :: "char \<Rightarrow> bool" where
  "isspace c = (c \<in> set [CHR 0x20, CHR 0x09, CHR 0x0A, CHR 0x0B, CHR 0x0C, CHR 0x0D])"

definition unicode_isspace :: "char \<Rightarrow> bool" where
  "unicode_isspace c =
     (isspace c \<or> c \<in> set [CHR 0x1C, CHR 0x1D, CHR 0x1E, CHR 0x1F, CHR 0x85, CHR 0xA0])"

definition isdigit :: "char \<Rightarrow> bool" where
  "isdigit c = (48 \<le> (of_char c :: nat) \<and> (of_char c :: nat) \<le> 57)"


definition strip :: "(char \<Rightarrow> bool) \<Rightarrow> string \<Rightarrow> string" where
  "strip sp s = rev (dropWhile sp (rev (dropWhile sp s)))"

definition digits_val :: "string \<Rightarrow> nat" where
  "digits_val ds = foldl (\<lambda>acc c. 10 * acc + (of_char c - 48)) 0 ds"


fun split_sign :: "string \<Rightarrow> bool \<times> string" where
  "split_sign [] = (False, [])"
| "split_sign (c # r) =
     (if c = CHR ''-'' then (True, r)
      else if c = CHR ''+'' then (False, r)
      else (False, c # r))"

definition parse_int :: "(char \<Rightarrow> bool) \<Rightarrow> string \<Rightarrow> int option" where
  "parse_int sp s =
     (case split_sign (strip sp s) of
        (neg, ds) \<Rightarrow>
          if ds \<noteq> [] \<and> list_all isdigit ds
          then Some (if neg then - int (digits_val ds) else int (digits_val ds))
          else None)"

text \<open>
  An integer result is a plain \<^verbatim>\<open>int\<close> when it fits the machine word and a
  \<^verbatim>\<open>long\<close> otherwise. \<^verbatim>\<open>sys.maxint\<close> is that of a 64-bit build.
\<close>

definition maxint :: int where
  "maxint = 2 ^ 63 - 1"

definition mk_int :: "int \<Rightarrow> pyval" where
  "mk_int i = (if - maxint - 1 \<le> i \<and> i \<le> maxint then PInt i else PLong i)"

text \<open>
  \<^verbatim>\<open>int(value)\<close>: a plain integer is returned as it is, a boolean as 0 or 1, a long
  as an integer of its size, a text is parsed (\<^verbatim>\<open>ValueError\<close> when it is no
  literal), an object of a user class is converted by what its body holds, and
  every other value of the universe is refused with \<^verbatim>\<open>TypeError\<close>.
\<close>

definition int_type_error :: "pyval \<Rightarrow> pyexc" where
  "int_type_error v =
     TypeError (''int() argument must be a string or a number, not ''
                @ quoted (if type_of v \<in> set builtin_classes then tp_name (type_of v)
                          else cls_name (type_of v)))"

definition int_value_error :: "string \<Rightarrow> pyexc" where
  "int_value_error r = ValueError (''invalid literal for int() with base 10: '' @ r)"

definition int_of_text :: "(char \<Rightarrow> bool) \<Rightarrow> string \<Rightarrow> string \<Rightarrow> pyexc + pyval" where
  "int_of_text sp r s =
     (case parse_int sp s of
        Some i \<Rightarrow> Inr (mk_int i)
      | None \<Rightarrow> Inl (int_value_error r))"

fun py_int :: "pyval \<Rightarrow> pyexc + pyval" where
  "py_int (PInt i) = Inr (PInt i)"
| "py_int (PBool b) = Inr (PInt (if b then 1 else 0))"
| "py_int (PLong i) = Inr (mk_int i)"
| "py_int (PStr s) = int_of_text isspace (repr_text s) s"
| "py_int (PUnicode s) = int_of_text unicode_isspace (CHR ''u'' # repr_text s) s"
| "py_int (PInstance c b) =
     (case body_conv b of
        NoConv \<Rightarrow> Inl (int_type_error (PInstance c b))
      | ConvInt i \<Rightarrow> Inr (mk_int i)
      | ConvStr s \<Rightarrow> int_of_text isspace (repr_text s) s
      | ConvUnicode s \<Rightarrow> int_of_text unicode_isspace (CHR ''u'' # repr_text s) s
      | ConvTypeError m \<Rightarrow> Inl (TypeError m)
      | ConvValueError m \<Rightarrow> Inl (ValueError m)
      | ConvOther m \<Rightarrow> Inl (OtherException m))"
| "py_int v = Inl (int_type_error v)"

section \<open>Argument specs\<close>

text \<open>
  The classes of \<^verbatim>\<open>args.py\<close>. An object of class \<^verbatim>\<open>Arg\<close> or of one of its
  subclasses is a record of the attributes that \<^verbatim>\<open>Arg.__init__\<close> sets, together
  with the class it was created from; \<^verbatim>\<open>ModelInstanceArg\<close> holds its \<^verbatim>\<open>model_class\<close>.
  The options \<^verbatim>\<open>required\<close>, \<^verbatim>\<open>null\<close>, \<^verbatim>\<open>resolve\<close>, \<^verbatim>\<open>multi\<close> and \<^verbatim>\<open>flag\<close> are
  booleans, \<^verbatim>\<open>name\<close> and \<^verbatim>\<open>keyword\<close> are a text or \<^verbatim>\<open>None\<close>.
\<close>

datatype arg_class =
    Arg
  | IntegerArg
  | StringArg
  | DateTimeArg
  | DateArg
  | TimeArg
  | ModelInstanceArg (model_class: pyclass)

record arg =
  name :: "string option"
  required :: bool
  default_val :: pyval
  null_val :: bool
  resolve :: bool
  multi :: bool
  keyword :: "string option"
  flag :: bool
  cls :: arg_class

text \<open>\<^verbatim>\<open>Arg.__init__\<close>, run for an object of class \<open>c\<close>; \<^verbatim>\<open>keyword\<close> starts as \<^verbatim>\<open>None\<close>.\<close>

definition Arg_init ::
  "arg_class \<Rightarrow> string option \<Rightarrow> bool \<Rightarrow> pyval \<Rightarrow> bool \<Rightarrow> bool \<Rightarrow> bool \<Rightarrow> bool \<Rightarrow> arg" where
  "Arg_init c name' required' default' null' resolve' multi' flag' =
     \<lparr>name = name', required = required', default_val = default', null_val = null',
      resolve = resolve', multi = multi', keyword = None, flag = flag', cls = c\<rparr>"

text \<open>
  \<^verbatim>\<open>ModelInstanceArg.__init__\<close>. Its first parameter is the \<^verbatim>\<open>model\<close> entry of the
  keyword arguments, \<open>None\<close> when the caller gave none (\<^verbatim>\<open>kwargs.pop\<close> raises
  \<^verbatim>\<open>KeyError\<close>); the others are what it hands on to \<^verbatim>\<open>Arg.__init__\<close>.
  \<^verbatim>\<open>issubclass\<close> itself raises \<^verbatim>\<open>TypeError\<close> when its first argument is no class.
\<close>

fun ModelInstanceArg_init ::
  "pyval option \<Rightarrow> string option \<Rightarrow> bool \<Rightarrow> pyval \<Rightarrow> bool \<Rightarrow> bool \<Rightarrow> bool \<Rightarrow> bool \<Rightarrow> pyexc + arg" where
  "ModelInstanceArg_init None name' required' default' null' resolve' multi' flag' =
     Inl (TypeError (''A '' @ quoted ''model'' @ '' keyword argument is required''))"
| "ModelInstanceArg_init (Some (PClass model)) name' required' default' null' resolve' multi' flag' =
     (if \<not> issubclass model Model_class
      then Inl (TypeError (quoted ''model'' @ '' must be a Model subclass''))
      else Inr (Arg_init (ModelInstanceArg model)
                  name' required' default' null' resolve' multi' flag'))"
| "ModelInstanceArg_init (Some v) name' required' default' null' resolve' multi' flag' =
     Inl (TypeError ''issubclass() arg 1 must be a class'')"

text \<open>\<^verbatim>\<open>'%s' % (self.name,)\<close>: the name, or the text \<^verbatim>\<open>None\<close>.\<close>

definition str_name :: "arg \<Rightarrow> string" where
  "str_name self = (case name self of None \<Rightarrow> ''None'' | Some n \<Rightarrow> n)"

subsection \<open>The \<^verbatim>\<open>clean\<close> methods\<close>

definition Arg_clean :: "arg \<Rightarrow> pyval \<Rightarrow> pyexc + pyval" where
  "Arg_clean self value = Inr value"

text \<open>
  \<^verbatim>\<open>IntegerArg.clean\<close>: the \<^verbatim>\<open>except\<close> clause catches \<^verbatim>\<open>TypeError\<close> and
  \<^verbatim>\<open>ValueError\<close> only; \<open>value\<close> is still the argument when the message is built.
\<close>

definition IntegerArg_clean :: "arg \<Rightarrow> pyval \<Rightarrow> pyexc + pyval" where
  "IntegerArg_clean self value =
     (case py_int value of
        Inr i \<Rightarrow> Inr i
      | Inl (TypeError _) \<Rightarrow>
          Inl (TemplateTagValidationError
                (''Value for '' @ quoted (str_name self) @ '' must be an integer (got ''
                 @ py_repr value @ '')''))
      | Inl (ValueError _) \<Rightarrow>
          Inl (TemplateTagValidationError
                (''Value for '' @ quoted (str_name self) @ '' must be an integer (got ''
                 @ py_repr value @ '')''))
      | Inl e \<Rightarrow> Inl e)"


definition StringArg_clean :: "arg \<Rightarrow> pyval \<Rightarrow> pyexc + pyval" where
  "StringArg_clean self value =
     (if \<not> isinstance value basestring_class
      then Inl (TemplateTagValidationError
                 (''Value for '' @ quoted (str_name self) @ '' must be a string''))
      else Inr value)"

definition DateTimeArg_clean :: "arg \<Rightarrow> pyval \<Rightarrow> pyexc + pyval" where
  "DateTimeArg_clean self value =
     (if \<not> isinstance value datetime_class
      then Inl (TemplateTagValidationError
                 (''Value for '' @ quoted (str_name self) @ '' must be a datetime instance''))
      else Inr value)"

definition DateArg_clean :: "arg \<Rightarrow> pyval \<Rightarrow> pyexc + pyval" where
  "DateArg_clean self value =
     (if \<not> isinstance value date_class
      then Inl (TemplateTagValidationError
                 (''Value for '' @ quoted (str_name self) @ '' must be a date instance''))
      else Inr value)"

definition TimeArg_clean :: "arg \<Rightarrow> pyval \<Rightarrow> pyexc + pyval" where
  "TimeArg_clean self value =
     (if \<not> isinstance value time_class
      then Inl (TemplateTagValidationError
                 (''Value for '' @ quoted (str_name self) @ '' must be a time instance''))
      else Inr value)"

definition ModelInstanceArg_clean :: "pyclass \<Rightarrow> arg \<Rightarrow> pyval \<Rightarrow> pyexc + pyval" where
  "ModelInstanceArg_clean model_class' self value =
     (if \<not> isinstance value model_class'
      then Inl (TemplateTagValidationError
                 (''Value for '' @ quoted (str_name self) @ '' must be an instance of ''
                  @ cls_module model_class' @ ''.'' @ cls_name model_class'))
      else Inr value)"

text \<open>\<^verbatim>\<open>self.clean(value)\<close>: the method of the object's class.\<close>

definition clean :: "arg \<Rightarrow> pyval \<Rightarrow> pyexc + pyval" where
  "clean self value =
     (case cls self of
        Arg \<Rightarrow> Arg_clean self value
      | IntegerArg \<Rightarrow> IntegerArg_clean self value
      | StringArg \<Rightarrow> StringArg_clean self value
      | DateTimeArg \<Rightarrow> DateTimeArg_clean self value
      | DateArg \<Rightarrow> DateArg_clean self value
      | TimeArg \<Rightarrow> TimeArg_clean self value
      | ModelInstanceArg m \<Rightarrow> ModelInstanceArg_clean m self value)"

subsection \<open>\<^verbatim>\<open>base_clean\<close>\<close>

text \<open>
  \<^verbatim>\<open>Arg.base_clean\<close> calls \<^verbatim>\<open>self.clean\<close>, which a subclass may override with any
  method. It is therefore written once over the method it calls: \<open>cl\<close> is the bound
  \<^verbatim>\<open>clean\<close>, which may raise and may change the state \<open>s\<close> of the program (a call
  counter, for one). A state that comes back unchanged under every \<open>cl\<close> means
  that \<open>cl\<close> was not called.
\<close>

definition single_item_error :: "arg \<Rightarrow> pyexc" where
  "single_item_error self =
     TemplateTagValidationError
       (''Value for '' @ quoted (str_name self) @ '' must be a single item.'')"

definition base_clean_via ::
  "(pyval \<Rightarrow> 's \<Rightarrow> (pyexc + pyval) \<times> 's) \<Rightarrow> arg \<Rightarrow> pyval \<Rightarrow> 's \<Rightarrow> (pyexc + pyval) \<times> 's" where
  "base_clean_via cl self value s =
     (if \<not> multi self \<and> isinstance_any value [list_class, tuple_class]
      then (Inl (single_item_error self), s)
      else if value \<noteq> PNone \<or> \<not> null_val self
      then cl value s
      else (Inr value, s))"

text \<open>\<^verbatim>\<open>base_clean\<close> of the classes of this module, whose \<^verbatim>\<open>clean\<close> has no effect.\<close>

definition base_clean :: "arg \<Rightarrow> pyval \<Rightarrow> pyexc + pyval" where
  "base_clean self value = fst (base_clean_via (\<lambda>v s. (clean self v, s)) self value ())"

text \<open>A \<^verbatim>\<open>clean\<close> that records each value it is called with, for observing the calls.\<close>

definition logging :: "(pyval \<Rightarrow> pyexc + pyval) \<Rightarrow> pyval \<Rightarrow> pyval list \<Rightarrow> (pyexc + pyval) \<times> pyval list" where
  "logging f v log = (f v, log @ [v])"

subsection \<open>The declarations of the test module\<close>

text \<open>
  \<^verbatim>\<open>tests/base.py\<close> declares a model \<^verbatim>\<open>Link\<close> and tags whose arguments are the
  specs below; a keyword argument is named after its keyword. \<^verbatim>\<open>limit\<close> is the
  argument of \<^verbatim>\<open>KeywordNoDefaultTag\<close>, the others belong to \<^verbatim>\<open>ArgumentTypeTag\<close>
  and are declared with \<^verbatim>\<open>null=True\<close>.
\<close>

definition Link :: pyclass where
  "Link = PyClass ''tests.base'' ''Link'' [Model_class]"

definition limit_arg :: arg where
  "limit_arg = Arg_init IntegerArg (Some ''limit'') False PNone False True False False"

definition age_arg :: arg where
  "age_arg = Arg_init IntegerArg (Some ''age'') False PNone True True False False"

definition name_arg :: arg where
  "name_arg = Arg_init StringArg (Some ''name'') False PNone True True False False"

definition date_arg :: arg where
  "date_arg = Arg_init DateArg (Some ''date'') False PNone True True False False"

definition time_arg :: arg where
  "time_arg = Arg_init TimeArg (Some ''time'') False PNone True True False False"

definition datetime_arg :: arg where
  "datetime_arg = Arg_init DateTimeArg (Some ''datetime'') False PNone True True False False"

definition url_arg :: "pyexc + arg" where
  "url_arg = ModelInstanceArg_init (Some (PClass Link)) (Some ''url'') False PNone True True False False"

section \<open>Properties\<close>

subsection \<open>Classes and instances\<close>

lemmas class_defs =
  object_class_def NoneType_class_def int_class_def bool_class_def basestring_class_def
  str_class_def unicode_class_def list_class_def tuple_class_def dict_class_def
  metatype_class_def date_class_def datetime_class_def time_class_def Model_class_def
  long_class_def

lemmas fixture_defs =
  limit_arg_def age_arg_def name_arg_def date_arg_def time_arg_def datetime_arg_def
  Arg_init_def

lemma issubclass_refl: "issubclass c c"
  by (cases c) simp

text \<open>Which values each \<^verbatim>\<open>isinstance\<close> test of the module lets through.\<close>

lemma is_sequence_iff:
  "isinstance_any v [list_class, tuple_class] \<longleftrightarrow>
     (\<exists>xs. v = PList xs) \<or> (\<exists>xs. v = PTuple xs) \<or>
     (\<exists>c r. v = PInstance c r \<and> (issubclass c list_class \<or> issubclass c tuple_class))"
  by (cases v) (simp_all add: isinstance_any_def isinstance_def class_defs)

lemma isinstance_date_iff:
  "isinstance v date_class \<longleftrightarrow>
     (\<exists>y m d. v = PDate y m d) \<or> (\<exists>y m d h mi s us. v = PDateTime y m d h mi s us) \<or>
     (\<exists>c r. v = PInstance c r \<and> issubclass c date_class)"
  by (cases v) (simp_all add: isinstance_def class_defs)

lemma isinstance_time_iff:
  "isinstance v time_class \<longleftrightarrow>
     (\<exists>h mi s us. v = PTime h mi s us) \<or>
     (\<exists>c r. v = PInstance c r \<and> issubclass c time_class)"
  by (cases v) (simp_all add: isinstance_def class_defs)

lemma isinstance_datetime_iff:
  "isinstance v datetime_class \<longleftrightarrow>
     (\<exists>y m d h mi s us. v = PDateTime y m d h mi s us) \<or>
     (\<exists>c r. v = PInstance c r \<and> issubclass c datetime_class)"
  by (cases v) (simp_all add: isinstance_def class_defs)

lemma None_not_sequence: "\<not> isinstance_any PNone [list_class, tuple_class]"
  by (simp add: is_sequence_iff)

subsection \<open>The branches of \<^verbatim>\<open>base_clean\<close>\<close>

lemma base_clean_via_gate:
  "\<not> multi self \<Longrightarrow> isinstance_any v [list_class, tuple_class] \<Longrightarrow>
     base_clean_via cl self v s = (Inl (single_item_error self), s)"
  by (simp add: base_clean_via_def)

lemma base_clean_via_call:
  "multi self \<or> \<not> isinstance_any v [list_class, tuple_class] \<Longrightarrow>
     v \<noteq> PNone \<or> \<not> null_val self \<Longrightarrow> base_clean_via cl self v s = cl v s"
  by (auto simp: base_clean_via_def)

lemma base_clean_via_bypass:
  "null_val self \<Longrightarrow> base_clean_via cl self PNone s = (Inr PNone, s)"
  by (simp add: base_clean_via_def None_not_sequence)

lemma base_clean_unfold:
  "base_clean self v =
     (if \<not> multi self \<and> isinstance_any v [list_class, tuple_class]
      then Inl (single_item_error self)
      else if v \<noteq> PNone \<or> \<not> null_val self then clean self v
      else Inr v)"
  by (simp add: base_clean_def base_clean_via_def)

subsection \<open>The single-item gate\<close>

text \<open>
  C1. On a spec whose \<^verbatim>\<open>multi\<close> is false, \<^verbatim>\<open>base_clean\<close> of a list or a tuple, whatever
  its elements (and of any other instance of \<^verbatim>\<open>list\<close> or \<^verbatim>\<open>tuple\<close>), raises the
  validation error whose message is \<^verbatim>\<open>Value for '<name>' must be a single item.\<close>
  This holds whatever \<^verbatim>\<open>null\<close> is and whatever \<^verbatim>\<open>clean\<close> method the spec has, and the
  state comes back unchanged: the check is made before the null bypass and before
  \<^verbatim>\<open>clean\<close>, which is not called.
\<close>

theorem base_clean_rejects_sequence:
  "\<not> multi self \<Longrightarrow>
   v = PList xs \<or> v = PTuple xs \<or> isinstance_any v [list_class, tuple_class] \<Longrightarrow>
     base_clean_via cl self v s =
       (Inl (TemplateTagValidationError
              (''Value for '' @ quoted (str_name self) @ '' must be a single item.'')), s)
     \<and> base_clean self v =
         Inl (TemplateTagValidationError
               (''Value for '' @ quoted (str_name self) @ '' must be a single item.''))"
proof -
  assume m: "\<not> multi self"
  assume "v = PList xs \<or> v = PTuple xs \<or> isinstance_any v [list_class, tuple_class]"
  then have sq: "isinstance_any v [list_class, tuple_class]"
    by (auto simp: is_sequence_iff)
  show ?thesis
    using m sq by (simp add: base_clean_unfold base_clean_via_gate single_item_error_def)
qed

theorem base_clean_rejects_sequence_witness:
  "\<not> multi name_arg
   \<and> base_clean_via (logging (clean name_arg)) name_arg (PList [PStr ''alice'', PInt 7]) []
      = (Inl (TemplateTagValidationError ''Value for 'name' must be a single item.''), [])
   \<and> base_clean name_arg (PTuple [])
      = Inl (TemplateTagValidationError ''Value for 'name' must be a single item.'')"
proof -
  have m: "\<not> multi name_arg"
    by (simp add: fixture_defs)
  have n: "''Value for '' @ quoted (str_name name_arg) @ '' must be a single item.''
             = ''Value for 'name' must be a single item.''"
    by (simp add: fixture_defs str_name_def quoted_def)
  show ?thesis
    using m base_clean_rejects_sequence [OF m, of "PList [PStr ''alice'', PInt 7]"
                   "[PStr ''alice'', PInt 7]" "logging (clean name_arg)" "[]"]
          base_clean_rejects_sequence [OF m, of "PTuple []" "[]" "logging (clean name_arg)" "[]"]
    unfolding n by simp
qed

subsection \<open>The null bypass\<close>

text \<open>
  C2. On a spec whose \<^verbatim>\<open>null\<close> is true, \<^verbatim>\<open>base_clean(None)\<close> returns \<^verbatim>\<open>None\<close> and
  does not call \<^verbatim>\<open>clean\<close>: the result and the state are the same under every
  \<^verbatim>\<open>clean\<close> method. On a spec whose \<^verbatim>\<open>null\<close> is false, \<^verbatim>\<open>base_clean(None)\<close> is
  \<^verbatim>\<open>clean(None)\<close>.
\<close>

theorem base_clean_null_bypass:
  "(null_val self \<longrightarrow>
      base_clean_via cl self PNone s = (Inr PNone, s) \<and> base_clean self PNone = Inr PNone)
   \<and> (\<not> null_val self \<longrightarrow>
      base_clean_via cl self PNone s = cl PNone s \<and> base_clean self PNone = clean self PNone)"
  by (simp add: base_clean_unfold base_clean_via_def None_not_sequence)

theorem base_clean_null_bypass_witness:
  "null_val age_arg
   \<and> base_clean_via (logging (clean age_arg)) age_arg PNone [] = (Inr PNone, [])
   \<and> \<not> null_val limit_arg
   \<and> base_clean limit_arg PNone
      = Inl (TemplateTagValidationError ''Value for 'limit' must be an integer (got None)'')"
proof -
  have a: "null_val age_arg" and l: "\<not> null_val limit_arg"
    by (simp_all add: fixture_defs)
  have c: "clean limit_arg PNone
      = Inl (TemplateTagValidationError ''Value for 'limit' must be an integer (got None)'')"
    by (simp add: fixture_defs clean_def IntegerArg_clean_def int_type_error_def
          str_name_def quoted_def)
  show ?thesis
    using a l c base_clean_null_bypass [of age_arg "logging (clean age_arg)" "[]"]
          base_clean_null_bypass [of limit_arg "logging (clean limit_arg)" "[]"]
    by simp
qed

subsection \<open>Dates, times and datetimes\<close>

text \<open>
  C3, as the claim states it, fails: \<^verbatim>\<open>DateArg.clean\<close> returns a combined date-time
  value unchanged, because \<^verbatim>\<open>datetime.datetime\<close> is a subclass of \<^verbatim>\<open>datetime.date\<close>
  and the method tests \<^verbatim>\<open>isinstance(value, datetime.date)\<close>.
\<close>

theorem DateArg_accepts_datetime:
  "clean date_arg (PDateTime 2010 1 9 22 33 47 0) = Inr (PDateTime 2010 1 9 22 33 47 0)
   \<and> type_of (PDateTime 2010 1 9 22 33 47 0) \<noteq> date_class"
  by (simp add: clean_def fixture_defs DateArg_clean_def isinstance_date_iff)
    (simp add: class_defs)

text \<open>
  C3, amended. Each of the three methods is the identity on the instances of its
  class and raises the validation error on every other value. \<^verbatim>\<open>DateArg\<close> accepts
  dates, datetimes and instances of subclasses of \<^verbatim>\<open>date\<close>; \<^verbatim>\<open>TimeArg\<close> accepts times
  and instances of subclasses of \<^verbatim>\<open>time\<close>; \<^verbatim>\<open>DateTimeArg\<close> accepts datetimes and
  instances of subclasses of \<^verbatim>\<open>datetime\<close>. So a time passed to \<^verbatim>\<open>DateArg\<close> fails, a
  date passed to \<^verbatim>\<open>DateTimeArg\<close> fails, and a datetime passed to \<^verbatim>\<open>DateArg\<close> passes.
\<close>

theorem date_time_clean_by_instance:
  "(cls self = DateArg \<longrightarrow>
      ((\<exists>y m d. v = PDate y m d) \<or> (\<exists>y m d h mi s us. v = PDateTime y m d h mi s us) \<or>
       (\<exists>c r. v = PInstance c r \<and> issubclass c date_class)
         \<longrightarrow> clean self v = Inr v) \<and>
      (\<not> ((\<exists>y m d. v = PDate y m d) \<or> (\<exists>y m d h mi s us. v = PDateTime y m d h mi s us) \<or>
       (\<exists>c r. v = PInstance c r \<and> issubclass c date_class))
         \<longrightarrow> clean self v = Inl (TemplateTagValidationError
               (''Value for '' @ quoted (str_name self) @ '' must be a date instance''))))
   \<and> (cls self = TimeArg \<longrightarrow>
      ((\<exists>h mi s us. v = PTime h mi s us) \<or>
       (\<exists>c r. v = PInstance c r \<and> issubclass c time_class)
         \<longrightarrow> clean self v = Inr v) \<and>
      (\<not> ((\<exists>h mi s us. v = PTime h mi s us) \<or>
       (\<exists>c r. v = PInstance c r \<and> issubclass c time_class))
         \<longrightarrow> clean self v = Inl (TemplateTagValidationError
               (''Value for '' @ quoted (str_name self) @ '' must be a time instance''))))
   \<and> (cls self = DateTimeArg \<longrightarrow>
      ((\<exists>y m d h mi s us. v = PDateTime y m d h mi s us) \<or>
       (\<exists>c r. v = PInstance c r \<and> issubclass c datetime_class)
         \<longrightarrow> clean self v = Inr v) \<and>
      (\<not> ((\<exists>y m d h mi s us. v = PDateTime y m d h mi s us) \<or>
       (\<exists>c r. v = PInstance c r \<and> issubclass c datetime_class))
         \<longrightarrow> clean self v = Inl (TemplateTagValidationError
               (''Value for '' @ quoted (str_name self) @ '' must be a datetime instance''))))"
proof -
  have d: "cls self = DateArg \<Longrightarrow> clean self v =
      (if isinstance v date_class then Inr v
       else Inl (TemplateTagValidationError
               (''Value for '' @ quoted (str_name self) @ '' must be a date instance'')))"
    by (simp add: clean_def DateArg_clean_def)
  have t: "cls self = TimeArg \<Longrightarrow> clean self v =
      (if isinstance v time_class then Inr v
       else Inl (TemplateTagValidationError
               (''Value for '' @ quoted (str_name self) @ '' must be a time instance'')))"
    by (simp add: clean_def TimeArg_clean_def)
  have dt: "cls self = DateTimeArg \<Longrightarrow> clean self v =
      (if isinstance v datetime_class then Inr v
       else Inl (TemplateTagValidationError
               (''Value for '' @ quoted (str_name self) @ '' must be a datetime instance'')))"
    by (simp add: clean_def DateTimeArg_clean_def)
  show ?thesis
    unfolding isinstance_date_iff [symmetric] isinstance_time_iff [symmetric]
      isinstance_datetime_iff [symmetric]
    using d t dt by simp
qed

theorem date_time_clean_by_instance_witness:
  "cls date_arg = DateArg
   \<and> clean date_arg (PDate 2010 1 9) = Inr (PDate 2010 1 9)
   \<and> clean date_arg (PTime 22 33 47 0)
       = Inl (TemplateTagValidationError ''Value for 'date' must be a date instance'')
   \<and> cls time_arg = TimeArg
   \<and> clean time_arg (PTime 22 33 47 0) = Inr (PTime 22 33 47 0)
   \<and> clean time_arg (PDateTime 2010 1 9 22 33 47 0)
       = Inl (TemplateTagValidationError ''Value for 'time' must be a time instance'')
   \<and> cls datetime_arg = DateTimeArg
   \<and> clean datetime_arg (PDateTime 2010 1 9 22 33 47 0) = Inr (PDateTime 2010 1 9 22 33 47 0)
   \<and> clean datetime_arg (PDate 2010 1 9)
       = Inl (TemplateTagValidationError ''Value for 'datetime' must be a datetime instance'')"
proof -
  have c: "cls date_arg = DateArg" "cls time_arg = TimeArg" "cls datetime_arg = DateTimeArg"
    by (simp_all add: fixture_defs)
  have n: "str_name date_arg = ''date''" "str_name time_arg = ''time''"
    "str_name datetime_arg = ''datetime''"
    by (simp_all add: fixture_defs str_name_def)
  show ?thesis
    using c
      date_time_clean_by_instance [of date_arg "PDate 2010 1 9"]
      date_time_clean_by_instance [of date_arg "PTime 22 33 47 0"]
      date_time_clean_by_instance [of time_arg "PTime 22 33 47 0"]
      date_time_clean_by_instance [of time_arg "PDateTime 2010 1 9 22 33 47 0"]
      date_time_clean_by_instance [of datetime_arg "PDateTime 2010 1 9 22 33 47 0"]
      date_time_clean_by_instance [of datetime_arg "PDate 2010 1 9"]
    by (simp add: n quoted_def)
qed

subsection \<open>The messages of the validation errors\<close>

lemma sublist_quoted: "sublist n (pre @ quoted n @ post)"
proof -
  have "pre @ quoted n @ post = (pre @ [CHR 0x27]) @ n @ ([CHR 0x27] @ post)"
    by (simp add: quoted_def)
  then show ?thesis
    by (simp only: sublist_appendI)
qed

lemma sublist_middle: "sublist r (pre @ q @ mid @ r @ post)"
proof -
  have "pre @ q @ mid @ r @ post = (pre @ q @ mid) @ r @ post"
    by simp
  then show ?thesis
    by (simp only: sublist_appendI)
qed

text \<open>The only validation error that leaves \<^verbatim>\<open>IntegerArg.clean\<close> is its own.\<close>

lemma py_int_no_validation_error: "py_int v \<noteq> Inl (TemplateTagValidationError m)"
  by (cases v)
    (simp_all add: int_of_text_def int_type_error_def int_value_error_def
      split: option.splits int_conv.splits)

lemma IntegerArg_clean_error:
  "IntegerArg_clean self v = Inl (TemplateTagValidationError msg) \<Longrightarrow>
     msg = ''Value for '' @ quoted (str_name self) @ '' must be an integer (got ''
            @ py_repr v @ '')''"
  using py_int_no_validation_error [of v]
  by (cases "py_int v") (auto simp: IntegerArg_clean_def split: pyexc.splits)

text \<open>
  C4, as the claim states it, fails: the message that \<^verbatim>\<open>StringArg.clean\<close> raises for
  the value 42 is \<^verbatim>\<open>Value for 'name' must be a string\<close>, in which the received
  value does not occur.
\<close>

theorem StringArg_message_omits_value:
  "clean name_arg (PInt 42) = Inl (TemplateTagValidationError ''Value for 'name' must be a string'')
   \<and> py_repr (PInt 42) = ''42''
   \<and> \<not> sublist ''42'' ''Value for 'name' must be a string''"
proof -
  have "clean name_arg (PInt 42)
      = Inl (TemplateTagValidationError ''Value for 'name' must be a string'')"
    by (simp add: clean_def fixture_defs StringArg_clean_def isinstance_def class_defs
        str_name_def quoted_def)
  moreover have "py_repr (PInt 42) = ''42''"
    by (simp add: str_int_def)
  moreover have "\<not> sublist ''42'' ''Value for 'name' must be a string''"
    by code_simp
  ultimately show ?thesis by simp
qed

text \<open>
  C4, amended. The message of every validation error raised by a \<^verbatim>\<open>clean\<close> method
  of the module includes the text of the argument's \<^verbatim>\<open>name\<close>; the message of
  \<^verbatim>\<open>IntegerArg.clean\<close> also includes the \<^verbatim>\<open>repr\<close> of the value it received.
  The messages of the other classes are fixed texts around the name (and, for
  \<^verbatim>\<open>ModelInstanceArg\<close>, the module and name of the model class).
\<close>

theorem clean_message_names_argument:
  "clean self v = Inl (TemplateTagValidationError msg) \<Longrightarrow>
     sublist (str_name self) msg
   \<and> (cls self = IntegerArg \<longrightarrow> sublist (py_repr v) msg)
   \<and> (cls self = StringArg \<longrightarrow>
        msg = ''Value for '' @ quoted (str_name self) @ '' must be a string'')
   \<and> (cls self = DateTimeArg \<longrightarrow>
        msg = ''Value for '' @ quoted (str_name self) @ '' must be a datetime instance'')
   \<and> (cls self = DateArg \<longrightarrow>
        msg = ''Value for '' @ quoted (str_name self) @ '' must be a date instance'')
   \<and> (cls self = TimeArg \<longrightarrow>
        msg = ''Value for '' @ quoted (str_name self) @ '' must be a time instance'')
   \<and> (\<forall>c. cls self = ModelInstanceArg c \<longrightarrow>
        msg = ''Value for '' @ quoted (str_name self) @ '' must be an instance of ''
              @ cls_module c @ ''.'' @ cls_name c)"
proof (cases "cls self")
  case Arg
  assume "clean self v = Inl (TemplateTagValidationError msg)"
  with Arg show ?thesis by (simp add: clean_def Arg_clean_def)
next
  case IntegerArg
  assume "clean self v = Inl (TemplateTagValidationError msg)"
  with IntegerArg have "IntegerArg_clean self v = Inl (TemplateTagValidationError msg)"
    by (simp add: clean_def)
  then have m: "msg = ''Value for '' @ quoted (str_name self) @ '' must be an integer (got ''
            @ py_repr v @ '')''"
    by (rule IntegerArg_clean_error)
  have "sublist (str_name self) msg" "sublist (py_repr v) msg"
    unfolding m by (rule sublist_quoted, rule sublist_middle)
  then show ?thesis
    using IntegerArg by simp
next
  case StringArg
  assume "clean self v = Inl (TemplateTagValidationError msg)"
  with StringArg have m: "msg = ''Value for '' @ quoted (str_name self) @ '' must be a string''"
    by (simp add: clean_def StringArg_clean_def split: if_splits)
  have "sublist (str_name self) msg"
    unfolding m by (rule sublist_quoted)
  then show ?thesis
    using StringArg m by simp
next
  case DateTimeArg
  assume "clean self v = Inl (TemplateTagValidationError msg)"
  with DateTimeArg
  have m: "msg = ''Value for '' @ quoted (str_name self) @ '' must be a datetime instance''"
    by (simp add: clean_def DateTimeArg_clean_def split: if_splits)
  have "sublist (str_name self) msg"
    unfolding m by (rule sublist_quoted)
  then show ?thesis
    using DateTimeArg m by simp
next
  case DateArg
  assume "clean self v = Inl (TemplateTagValidationError msg)"
  with DateArg
  have m: "msg = ''Value for '' @ quoted (str_name self) @ '' must be a date instance''"
    by (simp add: clean_def DateArg_clean_def split: if_splits)
  have "sublist (str_name self) msg"
    unfolding m by (rule sublist_quoted)
  then show ?thesis
    using DateArg m by simp
next
  case TimeArg
  assume "clean self v = Inl (TemplateTagValidationError msg)"
  with TimeArg
  have m: "msg = ''Value for '' @ quoted (str_name self) @ '' must be a time instance''"
    by (simp add: clean_def TimeArg_clean_def split: if_splits)
  have "sublist (str_name self) msg"
    unfolding m by (rule sublist_quoted)
  then show ?thesis
    using TimeArg m by simp
next
  case (ModelInstanceArg c)
  assume "clean self v = Inl (TemplateTagValidationError msg)"
  with ModelInstanceArg have m: "msg = ''Value for '' @ quoted (str_name self)
      @ '' must be an instance of '' @ cls_module c @ ''.'' @ cls_name c"
    by (simp add: clean_def ModelInstanceArg_clean_def split: if_splits)
  have "sublist (str_name self) msg"
    unfolding m by (rule sublist_quoted)
  then show ?thesis
    using ModelInstanceArg m by simp
qed

theorem clean_message_names_argument_witness:
  "clean age_arg (PStr ''7b'')
     = Inl (TemplateTagValidationError ''Value for 'age' must be an integer (got '7b')'')
   \<and> sublist (str_name age_arg) ''Value for 'age' must be an integer (got '7b')''
   \<and> cls age_arg = IntegerArg
   \<and> sublist (py_repr (PStr ''7b'')) ''Value for 'age' must be an integer (got '7b')''"
proof -
  have c: "clean age_arg (PStr ''7b'')
     = Inl (TemplateTagValidationError ''Value for 'age' must be an integer (got '7b')'')"
    by (simp add: clean_def fixture_defs IntegerArg_clean_def int_of_text_def parse_int_def
        strip_def isspace_def isdigit_def int_value_error_def str_name_def quoted_def
        repr_text_def repr_char_def Let_def)
  have i: "cls age_arg = IntegerArg"
    by (simp add: fixture_defs)
  show ?thesis
    using c i clean_message_names_argument [OF c] by simp
qed

subsection \<open>Integer conversion\<close>


























subsection \<open>Model instances\<close>

lemma issubclass_Model_not_int:
  "issubclass c Model_class \<Longrightarrow> \<not> issubclass int_class c"
  by (auto simp: class_defs)

text \<open>
  C6. The constructor of \<^verbatim>\<open>ModelInstanceArg\<close> raises \<^verbatim>\<open>TypeError\<close>, not the
  validation error, when no \<^verbatim>\<open>model\<close> is given and when \<^verbatim>\<open>model\<close> is not a
  subclass of \<^verbatim>\<open>Model\<close> (a value that is no class included). Given a subclass \<open>C\<close>
  of \<^verbatim>\<open>Model\<close> it returns a spec whose \<^verbatim>\<open>clean\<close> returns every instance of \<open>C\<close>
  unchanged and raises the validation error for every other value, 42 among them.
\<close>

theorem ModelInstanceArg_contract:
  "ModelInstanceArg_init None n r d nl rs m f
     = Inl (TypeError (''A '' @ quoted ''model'' @ '' keyword argument is required''))
   \<and> (\<not> (\<exists>c. model = PClass c \<and> issubclass c Model_class) \<longrightarrow>
        (\<exists>msg. ModelInstanceArg_init (Some model) n r d nl rs m f = Inl (TypeError msg)))
   \<and> (issubclass C Model_class \<longrightarrow>
        (\<exists>self. ModelInstanceArg_init (Some (PClass C)) n r d nl rs m f = Inr self
           \<and> cls self = ModelInstanceArg C
           \<and> (\<forall>v. isinstance v C \<longrightarrow> clean self v = Inr v)
           \<and> (\<forall>v. \<not> isinstance v C \<longrightarrow>
                 (\<exists>msg. clean self v = Inl (TemplateTagValidationError msg)))
           \<and> (\<forall>r. clean self (PInstance C r) = Inr (PInstance C r))
           \<and> (\<exists>msg. clean self (PInt 42) = Inl (TemplateTagValidationError msg))))"
proof (intro conjI impI)
  show "ModelInstanceArg_init None n r d nl rs m f
     = Inl (TypeError (''A '' @ quoted ''model'' @ '' keyword argument is required''))"
    by simp
next
  assume a: "\<not> (\<exists>c. model = PClass c \<and> issubclass c Model_class)"
  show "\<exists>msg. ModelInstanceArg_init (Some model) n r d nl rs m f = Inl (TypeError msg)"
    using a by (cases model) simp_all
next
  assume a: "issubclass C Model_class"
  let ?self = "Arg_init (ModelInstanceArg C) n r d nl rs m f"
  have i: "ModelInstanceArg_init (Some (PClass C)) n r d nl rs m f = Inr ?self"
    using a by simp
  have c: "cls ?self = ModelInstanceArg C"
    by (simp add: Arg_init_def)
  have e: "clean ?self v = ModelInstanceArg_clean C ?self v" for v
    by (simp add: clean_def c)
  have p: "\<forall>v. isinstance v C \<longrightarrow> clean ?self v = Inr v"
    by (simp add: e ModelInstanceArg_clean_def)
  have q: "\<forall>v. \<not> isinstance v C \<longrightarrow>
             (\<exists>msg. clean ?self v = Inl (TemplateTagValidationError msg))"
    by (simp add: e ModelInstanceArg_clean_def)
  have u: "\<forall>r. clean ?self (PInstance C r) = Inr (PInstance C r)"
    using p by (simp add: isinstance_def issubclass_refl)
  have "\<not> isinstance (PInt 42) C"
    using issubclass_Model_not_int [OF a] by (simp add: isinstance_def)
  with q have w: "\<exists>msg. clean ?self (PInt 42) = Inl (TemplateTagValidationError msg)"
    by blast
  show "\<exists>self. ModelInstanceArg_init (Some (PClass C)) n r d nl rs m f = Inr self
           \<and> cls self = ModelInstanceArg C
           \<and> (\<forall>v. isinstance v C \<longrightarrow> clean self v = Inr v)
           \<and> (\<forall>v. \<not> isinstance v C \<longrightarrow>
                 (\<exists>msg. clean self v = Inl (TemplateTagValidationError msg)))
           \<and> (\<forall>r. clean self (PInstance C r) = Inr (PInstance C r))
           \<and> (\<exists>msg. clean self (PInt 42) = Inl (TemplateTagValidationError msg))"
    using i c p q u w by blast
qed

theorem ModelInstanceArg_contract_witness:
  "\<not> (\<exists>c. PClass int_class = PClass c \<and> issubclass c Model_class)
   \<and> (\<exists>msg. ModelInstanceArg_init (Some (PClass int_class)) (Some ''url'') False PNone True True False False
          = Inl (TypeError msg))
   \<and> issubclass Link Model_class
   \<and> (\<exists>self. url_arg = Inr self
         \<and> isinstance (PInstance Link (Body ''<Link: <http://bing.com>>'' NoConv)) Link
         \<and> clean self (PInstance Link (Body ''<Link: <http://bing.com>>'' NoConv))
             = Inr (PInstance Link (Body ''<Link: <http://bing.com>>'' NoConv))
         \<and> \<not> isinstance (PInt 0) Link
         \<and> (\<exists>msg. clean self (PInt 0) = Inl (TemplateTagValidationError msg)))"
proof -
  have a: "\<not> (\<exists>c. PClass int_class = PClass c \<and> issubclass c Model_class)"
    by (simp add: class_defs)
  have b: "issubclass Link Model_class"
    by (simp add: Link_def class_defs)
  have i: "isinstance (PInstance Link (Body ''<Link: <http://bing.com>>'' NoConv)) Link"
    by (simp add: isinstance_def issubclass_refl)
  have j: "\<not> isinstance (PInt 0) Link"
    by (simp add: isinstance_def Link_def class_defs)
  show ?thesis
    using a b i j
      ModelInstanceArg_contract [of "Some ''url''" False PNone True True False False "PClass int_class" Link]
    unfolding url_arg_def by blast
qed

subsection \<open>Cleaning twice\<close>

lemma py_int_mk_int: "py_int (mk_int i) = Inr (mk_int i)"
  by (simp add: mk_int_def)

lemma mk_int_plain: "mk_int i \<noteq> PNone \<and> \<not> isinstance_any (mk_int i) [list_class, tuple_class]"
  by (simp add: mk_int_def is_sequence_iff)

text \<open>The result of \<^verbatim>\<open>int\<close> is an integer that \<^verbatim>\<open>int\<close> returns as it is.\<close>

lemma py_int_Inr:
  "py_int x = Inr y \<Longrightarrow>
     py_int y = Inr y \<and> y \<noteq> PNone \<and> \<not> isinstance_any y [list_class, tuple_class]"
proof -
  assume a: "py_int x = Inr y"
  have "(\<exists>i. y = PInt i) \<or> (\<exists>i. y = mk_int i)"
    using a
    by (cases x)
      (auto simp: int_of_text_def int_type_error_def split: option.splits int_conv.splits)
  then show ?thesis
  proof
    assume "\<exists>i. y = PInt i"
    then show ?thesis by (auto simp: is_sequence_iff)
  next
    assume "\<exists>i. y = mk_int i"
    then obtain i where "y = mk_int i" ..
    then show ?thesis
      using py_int_mk_int [of i] mk_int_plain [of i] by simp
  qed
qed

lemma IntegerArg_clean_Inr: "IntegerArg_clean self x = Inr y \<Longrightarrow> py_int x = Inr y"
  by (auto simp: IntegerArg_clean_def split: sum.splits pyexc.splits)

lemma clean_Inr:
  "clean self x = Inr y \<Longrightarrow> y = x \<or> (cls self = IntegerArg \<and> py_int x = Inr y)"
  by (cases "cls self")
    (auto simp: clean_def Arg_clean_def StringArg_clean_def DateTimeArg_clean_def
      DateArg_clean_def TimeArg_clean_def ModelInstanceArg_clean_def
      dest: IntegerArg_clean_Inr split: if_splits)

text \<open>
  C7. Whenever \<^verbatim>\<open>base_clean\<close> succeeds on \<open>x\<close> with the result \<open>y\<close>, it succeeds on
  \<open>y\<close> and returns \<open>y\<close>; this holds for every spec of the module.
\<close>

theorem base_clean_idempotent:
  "base_clean self x = Inr y \<Longrightarrow> base_clean self y = Inr y"
proof -
  assume a: "base_clean self x = Inr y"
  show ?thesis
  proof (cases "x = PNone \<and> null_val self")
    case True
    with a have "y = PNone"
      by (simp add: base_clean_unfold None_not_sequence)
    with True show ?thesis
      by (simp add: base_clean_unfold None_not_sequence)
  next
    case False
    with a have g: "\<not> (\<not> multi self \<and> isinstance_any x [list_class, tuple_class])"
      and c: "clean self x = Inr y"
      by (auto simp: base_clean_unfold split: if_splits)
    from clean_Inr [OF c] show ?thesis
    proof
      assume "y = x"
      with a show ?thesis by simp
    next
      assume i: "cls self = IntegerArg \<and> py_int x = Inr y"
      with py_int_Inr [of x y] show ?thesis
        by (simp add: base_clean_unfold clean_def IntegerArg_clean_def)
    qed
  qed
qed

theorem base_clean_idempotent_witness:
  "base_clean age_arg (PUnicode '' 23 '') = Inr (PInt 23)
   \<and> base_clean age_arg (PInt 23) = Inr (PInt 23)"
proof -
  have a: "base_clean age_arg (PUnicode '' 23 '') = Inr (PInt 23)"
    by (simp add: base_clean_unfold is_sequence_iff clean_def fixture_defs IntegerArg_clean_def
        int_of_text_def parse_int_def strip_def unicode_isspace_def isspace_def isdigit_def
        digits_val_def mk_int_def maxint_def)
  show ?thesis
    using a base_clean_idempotent [OF a] by simp
qed

subsection \<open>Sequences under \<^verbatim>\<open>multi\<close>\<close>

text \<open>
  C8. On an \<^verbatim>\<open>IntegerArg\<close> whose \<^verbatim>\<open>multi\<close> is true, \<^verbatim>\<open>base_clean\<close> of a list calls
  \<^verbatim>\<open>clean\<close> once, with the whole list, and raises the validation error that
  \<^verbatim>\<open>int\<close> of a list leads to, whatever the elements are.
\<close>

theorem IntegerArg_multi_whole_list:
  "cls self = IntegerArg \<Longrightarrow> multi self \<Longrightarrow>
     base_clean self (PList xs) =
       Inl (TemplateTagValidationError
             (''Value for '' @ quoted (str_name self) @ '' must be an integer (got ''
              @ py_repr (PList xs) @ '')''))
     \<and> base_clean_via (logging (clean self)) self (PList xs) [] =
         (Inl (TemplateTagValidationError
                (''Value for '' @ quoted (str_name self) @ '' must be an integer (got ''
                 @ py_repr (PList xs) @ '')'')), [PList xs])"
proof -
  assume c: "cls self = IntegerArg" and m: "multi self"
  have e: "clean self (PList xs) =
       Inl (TemplateTagValidationError
             (''Value for '' @ quoted (str_name self) @ '' must be an integer (got ''
              @ py_repr (PList xs) @ '')''))"
    using c by (simp add: clean_def IntegerArg_clean_def int_type_error_def)
  have v: "base_clean_via (logging (clean self)) self (PList xs) []
      = logging (clean self) (PList xs) []"
    using m by (simp add: base_clean_via_call)
  have b: "base_clean self (PList xs) = clean self (PList xs)"
    using m by (simp add: base_clean_unfold)
  show ?thesis
    unfolding v b logging_def e by simp
qed

theorem IntegerArg_multi_whole_list_witness:
  "cls (age_arg\<lparr>multi := True\<rparr>) = IntegerArg \<and> multi (age_arg\<lparr>multi := True\<rparr>)
   \<and> base_clean (age_arg\<lparr>multi := True\<rparr>) (PList [PInt 1, PInt 2])
       = Inl (TemplateTagValidationError ''Value for 'age' must be an integer (got [1, 2])'')"
proof -
  have c: "cls (age_arg\<lparr>multi := True\<rparr>) = IntegerArg" and m: "multi (age_arg\<lparr>multi := True\<rparr>)"
    by (simp_all add: fixture_defs)
  have n: "''Value for '' @ quoted (str_name (age_arg\<lparr>multi := True\<rparr>)) @ '' must be an integer (got ''
              @ py_repr (PList [PInt 1, PInt 2]) @ '')''
           = ''Value for 'age' must be an integer (got [1, 2])''"
    by (simp add: fixture_defs str_name_def quoted_def str_int_def)
  show ?thesis
    using c m IntegerArg_multi_whole_list [OF c m, of "[PInt 1, PInt 2]"] unfolding n by simp
qed

subsection \<open>Which values the gate stops\<close>

lemma clean_not_single_item: "clean self v \<noteq> Inl (single_item_error self)"
proof (cases "cls self = IntegerArg")
  case True
  show ?thesis
  proof
    assume "clean self v = Inl (single_item_error self)"
    with True have "IntegerArg_clean self v =
        Inl (TemplateTagValidationError
              (''Value for '' @ quoted (str_name self) @ '' must be a single item.''))"
      by (simp add: clean_def single_item_error_def)
    from IntegerArg_clean_error [OF this] show False
      by simp
  qed
next
  case False
  then show ?thesis
    by (cases "cls self")
      (simp_all add: clean_def Arg_clean_def StringArg_clean_def
        DateTimeArg_clean_def DateArg_clean_def TimeArg_clean_def ModelInstanceArg_clean_def
        single_item_error_def)
qed

text \<open>
  C9. On a spec whose \<^verbatim>\<open>multi\<close> is false, \<^verbatim>\<open>base_clean\<close> raises the single-item
  error exactly when the value is an instance of \<^verbatim>\<open>list\<close> or \<^verbatim>\<open>tuple\<close>: a list, a
  tuple, or an instance of a subclass of one of them. A text is handed to
  \<^verbatim>\<open>clean\<close>.
\<close>

theorem single_item_gate_exact:
  "\<not> multi self \<Longrightarrow>
     (base_clean self v =
        Inl (TemplateTagValidationError
              (''Value for '' @ quoted (str_name self) @ '' must be a single item.''))
      \<longleftrightarrow> isinstance_any v [list_class, tuple_class])
   \<and> (isinstance_any v [list_class, tuple_class] \<longleftrightarrow>
        (\<exists>xs. v = PList xs) \<or> (\<exists>xs. v = PTuple xs) \<or>
        (\<exists>c r. v = PInstance c r \<and> (issubclass c list_class \<or> issubclass c tuple_class)))
   \<and> base_clean_via cl self (PStr t) s = cl (PStr t) s
   \<and> base_clean_via cl self (PUnicode t) s = cl (PUnicode t) s
   \<and> base_clean self (PStr t) = clean self (PStr t)
   \<and> base_clean self (PUnicode t) = clean self (PUnicode t)"
proof -
  assume m: "\<not> multi self"
  have t: "\<not> isinstance_any (PStr t) [list_class, tuple_class]"
    "\<not> isinstance_any (PUnicode t) [list_class, tuple_class]"
    by (simp_all add: is_sequence_iff)
  have a: "base_clean self v = Inl (single_item_error self)
      \<longleftrightarrow> isinstance_any v [list_class, tuple_class]"
  proof (cases "isinstance_any v [list_class, tuple_class]")
    case True
    with m show ?thesis by (simp add: base_clean_unfold)
  next
    case False
    have "Inr v \<noteq> Inl (single_item_error self)" by simp
    with False clean_not_single_item [of self v] show ?thesis
      by (simp add: base_clean_unfold)
  qed
  show ?thesis
    using a t is_sequence_iff [of v]
    by (simp add: single_item_error_def base_clean_via_call base_clean_unfold)
qed

theorem single_item_gate_exact_witness:
  "\<not> multi name_arg
   \<and> base_clean name_arg (PTuple [PStr ''a''])
       = Inl (TemplateTagValidationError ''Value for 'name' must be a single item.'')
   \<and> isinstance_any (PTuple [PStr ''a'']) [list_class, tuple_class]
   \<and> base_clean name_arg (PStr ''alice'') = Inr (PStr ''alice'')"
proof -
  have m: "\<not> multi name_arg"
    by (simp add: fixture_defs)
  have n: "''Value for '' @ quoted (str_name name_arg) @ '' must be a single item.''
             = ''Value for 'name' must be a single item.''"
    by (simp add: fixture_defs str_name_def quoted_def)
  have q: "isinstance_any (PTuple [PStr ''a'']) [list_class, tuple_class]"
    by (simp add: is_sequence_iff)
  have c: "clean name_arg (PStr ''alice'') = Inr (PStr ''alice'')"
    by (simp add: clean_def fixture_defs StringArg_clean_def isinstance_def class_defs)
  show ?thesis
    using m q c single_item_gate_exact [OF m, of "PTuple [PStr ''a'']" "logging (clean name_arg)" "''alice''" "[]"]
    unfolding n by simp
qed

subsection \<open>Values other than \<^verbatim>\<open>None\<close> under \<^verbatim>\<open>null\<close>\<close>

text \<open>
  C10, as the claim states it, fails: on a spec whose \<^verbatim>\<open>null\<close> is true and whose
  \<^verbatim>\<open>multi\<close> is false, \<^verbatim>\<open>base_clean\<close> of the empty list, a value other than
  \<^verbatim>\<open>None\<close>, raises the single-item error and does not call \<^verbatim>\<open>clean\<close>.
\<close>

theorem null_bypass_stopped_by_gate:
  "null_val name_arg \<and> \<not> multi name_arg \<and> PList [] \<noteq> PNone
   \<and> base_clean_via (logging (clean name_arg)) name_arg (PList []) []
       = (Inl (TemplateTagValidationError ''Value for 'name' must be a single item.''), [])"
  by (simp add: base_clean_via_def is_sequence_iff single_item_error_def fixture_defs
      str_name_def quoted_def)

text \<open>
  C10, amended. On a spec whose \<^verbatim>\<open>null\<close> is true, \<^verbatim>\<open>base_clean\<close> calls \<^verbatim>\<open>clean\<close>, once
  and with the value itself, on every value other than \<^verbatim>\<open>None\<close> that passes the
  single-item gate (\<^verbatim>\<open>multi\<close> is true, or the value is no list and no tuple); 0,
  \<^verbatim>\<open>False\<close>, the empty strings and the empty dictionary are such values.
\<close>

theorem null_bypass_only_None:
  "null_val self \<Longrightarrow>
     (v \<noteq> PNone \<and> (multi self \<or> \<not> isinstance_any v [list_class, tuple_class]) \<longrightarrow>
        base_clean_via cl self v s = cl v s
        \<and> base_clean_via (logging f) self v [] = (f v, [v])
        \<and> base_clean self v = clean self v)
   \<and> base_clean_via cl self (PInt 0) s = cl (PInt 0) s
   \<and> base_clean_via cl self (PBool False) s = cl (PBool False) s
   \<and> base_clean_via cl self (PStr []) s = cl (PStr []) s
   \<and> base_clean_via cl self (PUnicode []) s = cl (PUnicode []) s
   \<and> base_clean_via cl self (PDict []) s = cl (PDict []) s"
proof -
  have q: "\<not> isinstance_any (PInt 0) [list_class, tuple_class]"
    "\<not> isinstance_any (PBool False) [list_class, tuple_class]"
    "\<not> isinstance_any (PStr []) [list_class, tuple_class]"
    "\<not> isinstance_any (PUnicode []) [list_class, tuple_class]"
    "\<not> isinstance_any (PDict []) [list_class, tuple_class]"
    by (simp_all add: is_sequence_iff)
  show ?thesis
    using q by (auto simp: base_clean_via_call base_clean_unfold logging_def)
qed

theorem null_bypass_only_None_witness:
  "null_val age_arg
   \<and> PInt 0 \<noteq> PNone \<and> \<not> isinstance_any (PInt 0) [list_class, tuple_class]
   \<and> base_clean_via (logging (clean age_arg)) age_arg (PInt 0) [] = (Inr (PInt 0), [PInt 0])
   \<and> base_clean_via (logging (clean age_arg)) age_arg (PStr []) []
       = (Inl (TemplateTagValidationError (''Value for 'age' must be an integer (got '' @ quoted [] @ '')'')),
          [PStr []])"
proof -
  have a: "null_val age_arg"
    by (simp add: fixture_defs)
  have q: "\<not> isinstance_any (PInt 0) [list_class, tuple_class]"
    by (simp add: is_sequence_iff)
  have c: "clean age_arg (PInt 0) = Inr (PInt 0)"
    by (simp add: clean_def fixture_defs IntegerArg_clean_def)
  have e: "clean age_arg (PStr []) =
      Inl (TemplateTagValidationError (''Value for 'age' must be an integer (got '' @ quoted [] @ '')''))"
    by (simp add: clean_def fixture_defs IntegerArg_clean_def int_of_text_def parse_int_def
        strip_def int_value_error_def str_name_def quoted_def repr_text_def Let_def)
  show ?thesis
    using a q c e
      null_bypass_only_None [OF a, of "PInt 0" "logging (clean age_arg)" "[]" "clean age_arg"]
    by (simp add: logging_def)
qed

end
